theory Spec2Isabelle
  imports Main "HOL-Library.Sublist"
begin

section \<open>GoBase: the query builder, the field registry and the result envelope\<close>

text \<open>
  A shallow embedding of the Go sources of binpqh/GoBase:
  \<^item> \<^verbatim>\<open>query/query_builder.go\<close>, package \<^verbatim>\<open>query\<close>: the struct \<^verbatim>\<open>QueryBuilder[T]\<close>, its
    clause methods and \<^verbatim>\<open>Build\<close>; package \<^verbatim>\<open>repository\<close> of the same file: \<^verbatim>\<open>GetByID\<close>;
  \<^item> the earlier builder (package \<^verbatim>\<open>query_builder\<close>, printed after the README) and the
    earlier \<^verbatim>\<open>GetByID\<close> of \<^verbatim>\<open>repository/generic_repository.go\<close>;
  \<^item> package \<^verbatim>\<open>utils\<close>: \<^verbatim>\<open>RegisterModels\<close>, \<^verbatim>\<open>registerModel\<close>, \<^verbatim>\<open>GetFields\<close>, \<^verbatim>\<open>GetField\<close>;
  \<^item> package \<^verbatim>\<open>result\<close>: \<^verbatim>\<open>NewSuccessResult\<close>, \<^verbatim>\<open>NewSuccessResultWithCode\<close>.

  Go's \<^verbatim>\<open>string\<close> is a byte sequence, here \<^typ>\<open>string\<close>. Go's \<^verbatim>\<open>int\<close> is \<^typ>\<open>int\<close>: the
  code only stores and compares the integers it is given (\<^verbatim>\<open>limit > 0\<close>,
  \<^verbatim>\<open>code < 200 || code >= 300\<close>), it never computes with them, so no operation can wrap.
  A method with a pointer receiver that mutates the builder takes the builder and
  returns the updated one. A \<^verbatim>\<open>panic\<close> is the left summand of a sum type.
\<close>

subsection \<open>Values and struct values as reflection sees them\<close>

text \<open>A value of type \<^verbatim>\<open>interface{}\<close>: what a positional SQL argument can hold.\<close>

datatype val = VInt int | VStr string | VBool bool | VNil

text \<open>
  \<^verbatim>\<open>reflect.TypeOf(x)\<close> and \<^verbatim>\<open>reflect.ValueOf(x)\<close> of a struct value \<^verbatim>\<open>x\<close>: the bare type
  name \<^verbatim>\<open>t.Name()\<close>, and for each declared field, in declaration order, its name
  \<^verbatim>\<open>t.Field(i).Name\<close>, its struct tag as a list of key/value pairs (first match wins, as
  in \<^verbatim>\<open>Tag.Lookup\<close>) and its value \<^verbatim>\<open>v.Field(i).Interface()\<close>. The model covers struct
  values with exported fields, on which none of these accessors panics.
\<close>

record field =
  fname :: string
  ftag :: "(string \<times> string) list"
  fval :: val

record struct =
  tname :: string
  sfields :: "field list"

definition TagLookup :: "field \<Rightarrow> string \<Rightarrow> string option" where
  "TagLookup f k = map_of (ftag f) k"

datatype error = Panic string

subsection \<open>The standard library functions the code calls\<close>

text \<open>\<^verbatim>\<open>strings.Join(elems, sep)\<close>.\<close>

fun Join :: "string list \<Rightarrow> string \<Rightarrow> string" where
  "Join [] sep = []"
| "Join [x] sep = x"
| "Join (x # y # ys) sep = x @ sep @ Join (y # ys) sep"

text \<open>
  \<^verbatim>\<open>strings.ToLower\<close> on a type name. Type names are taken to be ASCII, where
  \<^verbatim>\<open>ToLower\<close> maps \<^verbatim>\<open>A\<close>..\<^verbatim>\<open>Z\<close> to \<^verbatim>\<open>a\<close>..\<^verbatim>\<open>z\<close> and leaves every other byte alone.
\<close>

definition lower :: "char \<Rightarrow> char" where
  "lower c =
     (let n = (of_char c :: nat) in if 65 \<le> n \<and> n \<le> 90 then char_of (n + 32) else c)"

definition ToLower :: "string \<Rightarrow> string" where
  "ToLower s = map lower s"

subsection \<open>The query builder (package query)\<close>

record QueryBuilder =
  selectFields :: "string list"
  whereClauses :: "string list"
  whereArgs :: "val list"
  joins :: "string list"
  limit :: int
  orderBy :: "string list"
  insertFields :: "string list"
  insertValues :: "val list"
  updateFields :: "string list"

text \<open>\<^verbatim>\<open>&QueryBuilder[T]{}\<close>: every slice is nil (empty), the limit is 0.\<close>

definition NewQueryBuilder :: QueryBuilder where
  "NewQueryBuilder =
     \<lparr>selectFields = [], whereClauses = [], whereArgs = [], joins = [], limit = 0,
      orderBy = [], insertFields = [], insertValues = [], updateFields = []\<rparr>"

text \<open>The loop body of \<^verbatim>\<open>Insert\<close>, run once per field in declaration order.\<close>

definition Insert_step :: "field \<Rightarrow> QueryBuilder \<Rightarrow> QueryBuilder" where
  "Insert_step f qb =
     qb\<lparr>insertFields := insertFields qb @ [fname f],
        insertValues := insertValues qb @ [fval f]\<rparr>"

definition Insert :: "struct \<Rightarrow> QueryBuilder \<Rightarrow> QueryBuilder" where
  "Insert d qb = fold Insert_step (sfields d) qb"

text \<open>The loop body of \<^verbatim>\<open>Update\<close>: the value goes onto \<^verbatim>\<open>whereArgs\<close>.\<close>

definition Update_step :: "field \<Rightarrow> QueryBuilder \<Rightarrow> QueryBuilder" where
  "Update_step f qb =
     qb\<lparr>updateFields := updateFields qb @ [fname f @ '' = ?''],
        whereArgs := whereArgs qb @ [fval f]\<rparr>"

definition Update :: "struct \<Rightarrow> QueryBuilder \<Rightarrow> QueryBuilder" where
  "Update d qb = fold Update_step (sfields d) qb"

definition Delete :: "QueryBuilder \<Rightarrow> QueryBuilder" where
  "Delete qb = qb"

definition Select :: "string list \<Rightarrow> QueryBuilder \<Rightarrow> QueryBuilder" where
  "Select fs qb = fold (\<lambda>f q. q\<lparr>selectFields := selectFields q @ [f]\<rparr>) fs qb"

definition WhereEqual :: "string \<Rightarrow> val \<Rightarrow> QueryBuilder \<Rightarrow> QueryBuilder" where
  "WhereEqual f v qb =
     qb\<lparr>whereClauses := whereClauses qb @ [f @ '' = ?''],
        whereArgs := whereArgs qb @ [v]\<rparr>"

definition OrderByASC :: "string \<Rightarrow> QueryBuilder \<Rightarrow> QueryBuilder" where
  "OrderByASC f qb = qb\<lparr>orderBy := orderBy qb @ [f @ '' ASC'']\<rparr>"

definition OrderByDESC :: "string \<Rightarrow> QueryBuilder \<Rightarrow> QueryBuilder" where
  "OrderByDESC f qb = qb\<lparr>orderBy := orderBy qb @ [f @ '' DESC'']\<rparr>"

definition JoinOn :: "string \<Rightarrow> string \<Rightarrow> QueryBuilder \<Rightarrow> QueryBuilder" where
  "JoinOn table onCondition qb =
     qb\<lparr>joins := joins qb @ [''JOIN '' @ table @ '' ON '' @ onCondition]\<rparr>"

definition Limit :: "int \<Rightarrow> QueryBuilder \<Rightarrow> QueryBuilder" where
  "Limit n qb = qb\<lparr>limit := n\<rparr>"

text \<open>
  \<^verbatim>\<open>Build\<close>. The type parameter \<^verbatim>\<open>T\<close> enters only through its bare name
  \<^verbatim>\<open>reflect.TypeOf(entityInstance).Name()\<close>, the first argument here. The result is the
  returned pair \<^verbatim>\<open>(sql, args)\<close> and the builder as the call leaves it: the last branch
  stores the extended argument list back into \<^verbatim>\<open>qb.whereArgs\<close>.
\<close>

definition Build :: "string \<Rightarrow> QueryBuilder \<Rightarrow> (string \<times> val list) \<times> QueryBuilder" where
  "Build typeName qb =
     (let tableName = ToLower typeName;
          whereClause = '' WHERE ''
      in
      if length (insertFields qb) > 0 then
        ((''INSERT INTO '' @ tableName @ '' (''
            @ Join (insertFields qb) '', ''
            @ '') VALUES (''
            @ Join (replicate (length (insertFields qb)) ''?'') '', ''
            @ '')'',
          insertValues qb), qb)
      else if length (updateFields qb) > 0 then
        ((''UPDATE '' @ tableName @ '' SET ''
            @ Join (updateFields qb) '', ''
            @ (if length (whereClauses qb) > 0
               then whereClause @ Join (whereClauses qb) '' AND '' else []),
          whereArgs qb), qb)
      else if length (whereClauses qb) > 0 \<and> length (insertFields qb) = 0 then
        ((''DELETE FROM '' @ tableName
            @ whereClause @ Join (whereClauses qb) '' AND '',
          whereArgs qb), qb)
      else
        (let sql = ''SELECT ''
               @ (if length (selectFields qb) > 0
                  then Join (selectFields qb) '', '' else ''*'')
               @ '' FROM '' @ tableName
               @ (if length (joins qb) > 0 then '' '' @ Join (joins qb) '' '' else [])
               @ (if length (whereClauses qb) > 0
                  then whereClause @ Join (whereClauses qb) '' AND '' else [])
               @ (if length (orderBy qb) > 0
                  then '' ORDER BY '' @ Join (orderBy qb) '', '' else [])
         in
         if limit qb > 0 then
           ((sql @ '' LIMIT ?'', whereArgs qb @ [VInt (limit qb)]),
            qb\<lparr>whereArgs := whereArgs qb @ [VInt (limit qb)]\<rparr>)
         else ((sql, whereArgs qb), qb)))"

text \<open>
  A chain of builder calls, \<^verbatim>\<open>NewQueryBuilder[T]().M1(...).M2(...)\<close>, as the list of its
  calls in call order: \<open>chain\<close> applies them to a new builder. \<open>last_limit\<close> is the
  argument of the last \<^verbatim>\<open>Limit\<close> call of a chain, if there is one.
\<close>

datatype call =
    CInsert struct
  | CUpdate struct
  | CDelete
  | CSelect "string list"
  | CWhereEqual string val
  | COrderByASC string
  | COrderByDESC string
  | CJoin string string
  | CLimit int

fun apply_call :: "call \<Rightarrow> QueryBuilder \<Rightarrow> QueryBuilder" where
  "apply_call (CInsert d) qb = Insert d qb"
| "apply_call (CUpdate d) qb = Update d qb"
| "apply_call CDelete qb = Delete qb"
| "apply_call (CSelect fs) qb = Select fs qb"
| "apply_call (CWhereEqual f v) qb = WhereEqual f v qb"
| "apply_call (COrderByASC f) qb = OrderByASC f qb"
| "apply_call (COrderByDESC f) qb = OrderByDESC f qb"
| "apply_call (CJoin t c) qb = JoinOn t c qb"
| "apply_call (CLimit n) qb = Limit n qb"

definition chain :: "call list \<Rightarrow> QueryBuilder" where
  "chain cs = fold apply_call cs NewQueryBuilder"

fun is_Limit :: "call \<Rightarrow> bool" where
  "is_Limit (CLimit n) = True"
| "is_Limit c = False"

fun last_limit :: "call list \<Rightarrow> int option" where
  "last_limit [] = None"
| "last_limit (c # cs) =
     (case last_limit cs of
        Some n \<Rightarrow> Some n
      | None \<Rightarrow> (case c of CLimit n \<Rightarrow> Some n | _ \<Rightarrow> None))"

subsection \<open>The repository's GetByID (package repository)\<close>

text \<open>
  The database handle is the function \<open>db\<close>: what \<^verbatim>\<open>r.db.QueryRow(sqlQuery, args...)\<close>
  followed by \<^verbatim>\<open>row.Scan(entityInstance)\<close> yields for a statement and its arguments, an
  error or the scanned entity. \<^verbatim>\<open>GetByID\<close> returns that result as it is.
\<close>

definition GetByID :: "(string \<Rightarrow> val list \<Rightarrow> 'e + 'r) \<Rightarrow> string \<Rightarrow> val \<Rightarrow> 'e + 'r" where
  "GetByID db typeName key =
     (let qb = Limit 1 (WhereEqual ''ID'' key NewQueryBuilder);
          res = fst (Build typeName qb);
          sqlQuery = fst res;
          args = snd res
      in db sqlQuery args)"

subsection \<open>The earlier builder and repository\<close>

text \<open>
  The builder of package \<^verbatim>\<open>query_builder\<close> has the first six fields of the struct
  above and the same \<^verbatim>\<open>Select\<close>, \<^verbatim>\<open>WhereEqual\<close>, \<^verbatim>\<open>OrderByASC\<close>, \<^verbatim>\<open>OrderByDESC\<close>, \<^verbatim>\<open>Join\<close>
  and \<^verbatim>\<open>Limit\<close>; it has no \<^verbatim>\<open>Insert\<close>, \<^verbatim>\<open>Update\<close> or \<^verbatim>\<open>Delete\<close>. Its \<^verbatim>\<open>Build\<close> always
  renders a SELECT:
\<close>

definition Build_v1 :: "string \<Rightarrow> QueryBuilder \<Rightarrow> (string \<times> val list) \<times> QueryBuilder" where
  "Build_v1 typeName qb =
     (let sql = ''SELECT ''
            @ (if length (selectFields qb) > 0
               then Join (selectFields qb) '', '' else ''*'')
            @ '' FROM '' @ ToLower typeName
            @ (if length (joins qb) > 0 then '' '' @ Join (joins qb) '' '' else [])
            @ (if length (whereClauses qb) > 0
               then '' WHERE '' @ Join (whereClauses qb) '' AND '' else [])
            @ (if length (orderBy qb) > 0
               then '' ORDER BY '' @ Join (orderBy qb) '', '' else [])
      in
      if limit qb > 0 then
        ((sql @ '' LIMIT ?'', whereArgs qb @ [VInt (limit qb)]),
         qb\<lparr>whereArgs := whereArgs qb @ [VInt (limit qb)]\<rparr>)
      else ((sql, whereArgs qb), qb))"

text \<open>
  \<^verbatim>\<open>GetByID\<close> of \<^verbatim>\<open>repository/generic_repository.go\<close>, on the earlier builder. Its field
  map (\<^verbatim>\<open>fields\<close>, from a registry accessor that is not among the sources) is a
  parameter; indexing a Go map at a missing key gives the empty string.
\<close>

definition index_or_empty :: "(string \<rightharpoonup> string) \<Rightarrow> string \<Rightarrow> string" where
  "index_or_empty m k = (case m k of Some v \<Rightarrow> v | None \<Rightarrow> [])"

definition GetByID_v1 ::
  "(string \<Rightarrow> val list \<Rightarrow> 'e + 'r) \<Rightarrow> (string \<rightharpoonup> string) \<Rightarrow> string \<Rightarrow> val \<Rightarrow> 'e + 'r" where
  "GetByID_v1 db fieldsOf typeName key =
     (let qb = Limit 1 (WhereEqual (index_or_empty fieldsOf ''ID'') key
                 (Select [index_or_empty fieldsOf ''ID''] NewQueryBuilder));
          res = fst (Build_v1 typeName qb)
      in db (fst res) (snd res))"

subsection \<open>The field registry (package utils)\<close>

text \<open>
  \<^verbatim>\<open>modelFieldCache\<close>, a \<^verbatim>\<open>sync.Map\<close> from type names to field maps, is the state the
  registry functions pass along. \<^verbatim>\<open>registerModel\<close> is its only writer and stores a
  \<^verbatim>\<open>map[string]string\<close>, so the type assertion of the readers always holds and a lookup
  fails only on a missing key.
\<close>

type_synonym fieldMap = "string \<rightharpoonup> string"

type_synonym cache = "string \<rightharpoonup> fieldMap"

text \<open>The column of a field: the \<^verbatim>\<open>db\<close> tag if the field has one, else the field name.\<close>

definition column_of :: "field \<Rightarrow> string" where
  "column_of f = (case TagLookup f ''db'' of Some tag \<Rightarrow> tag | None \<Rightarrow> fname f)"

definition registerModel_step :: "field \<Rightarrow> fieldMap \<Rightarrow> fieldMap" where
  "registerModel_step f fm = fm(fname f \<mapsto> column_of f)"

definition registerModel :: "struct \<Rightarrow> cache \<Rightarrow> cache" where
  "registerModel model c =
     c(tname model \<mapsto> fold registerModel_step (sfields model) Map.empty)"

definition RegisterModels :: "struct list \<Rightarrow> cache \<Rightarrow> cache" where
  "RegisterModels models c = fold registerModel models c"

text \<open>\<^verbatim>\<open>GetFields[T]()\<close>: of \<^verbatim>\<open>T\<close> only the bare name is used.\<close>

definition GetFields :: "cache \<Rightarrow> string \<Rightarrow> error + fieldMap" where
  "GetFields c typeName =
     (case c typeName of
        Some fm \<Rightarrow> Inr fm
      | None \<Rightarrow> Inl (Panic (''Fields not found for model: '' @ typeName)))"

definition GetField :: "cache \<Rightarrow> struct \<Rightarrow> string \<Rightarrow> error + string" where
  "GetField c model fieldName =
     (case c (tname model) of
        Some fm \<Rightarrow>
          (case fm fieldName of
             Some column \<Rightarrow> Inr column
           | None \<Rightarrow> Inl (Panic (''Field not found: '' @ fieldName)))
      | None \<Rightarrow> Inl (Panic (''Field not found: '' @ fieldName)))"

subsection \<open>The result envelope (package result)\<close>

record 'a RestfulResult =
  Data :: 'a
  Message :: string
  Code :: int
  Success :: bool

definition NewSuccessResult :: "'a \<Rightarrow> string \<Rightarrow> 'a RestfulResult" where
  "NewSuccessResult d message =
     \<lparr>Data = d, Message = message, Code = 200, Success = True\<rparr>"

definition NewSuccessResultWithCode :: "'a \<Rightarrow> int \<Rightarrow> string \<Rightarrow> error + 'a RestfulResult" where
  "NewSuccessResultWithCode d code message =
     (if code < 200 \<or> code \<ge> 300
      then Inl (Panic ''Success code must be in the range 200-299'')
      else Inr \<lparr>Data = d, Message = message, Code = code, Success = True\<rparr>)"

subsection \<open>Struct types and example values\<close>

text \<open>
  What \<^verbatim>\<open>reflect.TypeOf\<close> sees of the fields of a struct value: the names and tags, in
  declaration order. Two values of one struct type have the same \<open>decls\<close>; two struct
  types with one bare name (declared in two packages, or in two function bodies) are
  values with the same \<open>tname\<close> and different \<open>decls\<close>.
\<close>

definition decls :: "struct \<Rightarrow> (string \<times> (string \<times> string) list) list" where
  "decls m = map (\<lambda>f. (fname f, ftag f)) (sfields m)"

text \<open>
  \<^verbatim>\<open>type User struct { ID int `json:"id" db:"user_id"`; Name string }\<close>, a second struct
  type that is also named \<^verbatim>\<open>User\<close>, and a struct type with no fields.
\<close>

definition idField :: field where
  "idField = \<lparr>fname = ''ID'', ftag = [(''json'', ''id''), (''db'', ''user_id'')], fval = VInt 1\<rparr>"

definition nameField :: field where
  "nameField = \<lparr>fname = ''Name'', ftag = [], fval = VStr ''ann''\<rparr>"

definition userRow :: struct where
  "userRow = \<lparr>tname = ''User'', sfields = [idField, nameField]\<rparr>"

definition otherUser :: struct where
  "otherUser =
     \<lparr>tname = ''User'', sfields = [\<lparr>fname = ''Email'', ftag = [], fval = VStr ''a@b''\<rparr>]\<rparr>"

definition emptyRow :: struct where
  "emptyRow = \<lparr>tname = ''Marker'', sfields = []\<rparr>"

section \<open>Properties\<close>

subsection \<open>Loops as appends\<close>

lemma ToLower_User: "ToLower ''User'' = ''user''"
  by code_simp

lemma fold_Insert_step:
  "fold Insert_step fs qb =
     qb\<lparr>insertFields := insertFields qb @ map fname fs,
        insertValues := insertValues qb @ map fval fs\<rparr>"
  by (induction fs arbitrary: qb) (simp_all add: Insert_step_def)

lemma fold_Update_step:
  "fold Update_step fs qb =
     qb\<lparr>updateFields := updateFields qb @ map (\<lambda>f. fname f @ '' = ?'') fs,
        whereArgs := whereArgs qb @ map fval fs\<rparr>"
  by (induction fs arbitrary: qb) (simp_all add: Update_step_def)

lemma Select_append: "Select fs qb = qb\<lparr>selectFields := selectFields qb @ fs\<rparr>"
  unfolding Select_def by (induction fs arbitrary: qb) simp_all

lemma Insert_append:
  "Insert d qb =
     qb\<lparr>insertFields := insertFields qb @ map fname (sfields d),
        insertValues := insertValues qb @ map fval (sfields d)\<rparr>"
  by (simp add: Insert_def fold_Insert_step)

lemma Update_append:
  "Update d qb =
     qb\<lparr>updateFields := updateFields qb @ map (\<lambda>f. fname f @ '' = ?'') (sfields d),
        whereArgs := whereArgs qb @ map fval (sfields d)\<rparr>"
  by (simp add: Update_def fold_Update_step)

subsection \<open>Concrete builders\<close>


text \<open>
  C3. The README's example,
  \<^verbatim>\<open>Select("id","name").WhereEqual("age",25).OrderByASC("name").Limit(10)\<close> for the
  entity type \<^verbatim>\<open>User\<close>: \<^verbatim>\<open>Build\<close> of package \<^verbatim>\<open>query\<close> takes the DELETE branch, because a
  where-clause is present, and returns \<^verbatim>\<open>DELETE FROM user WHERE age = ?\<close> with \<^verbatim>\<open>[25]\<close>;
  the select list, the ordering and the limit are dropped. The earlier \<^verbatim>\<open>Build\<close> returns
  what the README prints.
\<close>

theorem Build_readme_example_is_delete:
  "fst (Build ''User''
      (Limit 10 (OrderByASC ''name'' (WhereEqual ''age'' (VInt 25)
        (Select [''id'', ''name''] NewQueryBuilder))))) =
     (''DELETE FROM user WHERE age = ?'', [VInt 25])
   \<and> fst (Build_v1 ''User''
      (Limit 10 (OrderByASC ''name'' (WhereEqual ''age'' (VInt 25)
        (Select [''id'', ''name''] NewQueryBuilder))))) =
     (''SELECT id, name FROM user WHERE age = ? ORDER BY name ASC LIMIT ?'',
      [VInt 25, VInt 10])"
  by (simp add: Build_def Build_v1_def Limit_def OrderByASC_def WhereEqual_def
      Select_append NewQueryBuilder_def ToLower_User)

text \<open>
  C2. \<^verbatim>\<open>GetByID\<close> of \<^verbatim>\<open>query_builder.go\<close> hands the database, for every key and every
  entity type, the statement \<^verbatim>\<open>DELETE FROM <table> WHERE ID = ?\<close> with the one argument
  \<^verbatim>\<open>[key]\<close>: its builder has a where-clause, so \<^verbatim>\<open>Build\<close> never reaches the SELECT branch
  and the limit 1 is never appended. The earlier \<^verbatim>\<open>GetByID\<close>, on the earlier \<^verbatim>\<open>Build\<close>,
  executes a SELECT with the arguments \<^verbatim>\<open>[key, 1]\<close>.
\<close>

theorem GetByID_executes_delete:
  "GetByID db typeName key =
     db (''DELETE FROM '' @ ToLower typeName @ '' WHERE ID = ?'') [key]
   \<and> GetByID_v1 db fieldsOf typeName key =
     db (''SELECT '' @ index_or_empty fieldsOf ''ID'' @ '' FROM '' @ ToLower typeName
          @ '' WHERE '' @ index_or_empty fieldsOf ''ID'' @ '' = ? LIMIT ?'')
        [key, VInt 1]"
  by (simp add: GetByID_def GetByID_v1_def Build_def Build_v1_def Limit_def WhereEqual_def
      Select_append NewQueryBuilder_def)

subsection \<open>The result envelope\<close>

text \<open>
  C9. \<^verbatim>\<open>NewSuccessResultWithCode\<close> panics exactly when the code is outside 200..299;
  inside the range it returns the code, the data and the message it was given with
  \<^verbatim>\<open>Success\<close> true. \<^verbatim>\<open>NewSuccessResult\<close> always returns code 200 with \<^verbatim>\<open>Success\<close> true.
\<close>

theorem NewSuccessResultWithCode_range:
  "(NewSuccessResultWithCode d code message =
      Inl (Panic ''Success code must be in the range 200-299'')
      \<longleftrightarrow> code < 200 \<or> 299 < code)
   \<and> (200 \<le> code \<and> code \<le> 299 \<longrightarrow>
        NewSuccessResultWithCode d code message =
          Inr \<lparr>Data = d, Message = message, Code = code, Success = True\<rparr>)
   \<and> NewSuccessResult d message =
        \<lparr>Data = d, Message = message, Code = 200, Success = True\<rparr>"
  by (auto simp add: NewSuccessResultWithCode_def NewSuccessResult_def)

theorem NewSuccessResultWithCode_range_witness:
  "NewSuccessResultWithCode (VStr ''row'') 200 ''ok'' =
     Inr \<lparr>Data = VStr ''row'', Message = ''ok'', Code = 200, Success = True\<rparr>
   \<and> NewSuccessResultWithCode (VStr ''row'') 299 ''ok'' =
     Inr \<lparr>Data = VStr ''row'', Message = ''ok'', Code = 299, Success = True\<rparr>
   \<and> NewSuccessResultWithCode (VStr ''row'') 199 ''ok'' =
     Inl (Panic ''Success code must be in the range 200-299'')
   \<and> NewSuccessResultWithCode (VStr ''row'') 300 ''ok'' =
     Inl (Panic ''Success code must be in the range 200-299'')"
  using NewSuccessResultWithCode_range [of "VStr ''row''" 200 "''ok''"]
    NewSuccessResultWithCode_range [of "VStr ''row''" 299 "''ok''"]
    NewSuccessResultWithCode_range [of "VStr ''row''" 199 "''ok''"]
    NewSuccessResultWithCode_range [of "VStr ''row''" 300 "''ok''"]
  by simp


lemmas call_defs = Insert_append Update_append Select_append Delete_def WhereEqual_def
  OrderByASC_def OrderByDESC_def JoinOn_def Limit_def

lemmas example_defs = userRow_def otherUser_def emptyRow_def idField_def nameField_def

subsection \<open>The statement kind\<close>

text \<open>
  C1. For every builder state \<^verbatim>\<open>Build\<close> picks the statement by a fixed priority.
  With insert columns it renders the INSERT and returns the insert values; the
  where-clauses and where-arguments have no influence on that result. Otherwise, with
  update fragments, it renders the UPDATE (with the WHERE clause if there is one);
  otherwise, with where-clauses, the DELETE; otherwise the SELECT.
\<close>

theorem Build_priority:
  "(insertFields qb \<noteq> [] \<longrightarrow>
      fst (Build typeName qb) =
        (''INSERT INTO '' @ ToLower typeName @ '' ('' @ Join (insertFields qb) '', ''
           @ '') VALUES ('' @ Join (replicate (length (insertFields qb)) ''?'') '', ''
           @ '')'',
         insertValues qb)
      \<and> fst (Build typeName (qb\<lparr>whereClauses := wc, whereArgs := wa\<rparr>)) =
          fst (Build typeName qb))
   \<and> (insertFields qb = [] \<and> updateFields qb \<noteq> [] \<longrightarrow>
      fst (Build typeName qb) =
        (''UPDATE '' @ ToLower typeName @ '' SET '' @ Join (updateFields qb) '', ''
           @ (if whereClauses qb = [] then []
              else '' WHERE '' @ Join (whereClauses qb) '' AND ''),
         whereArgs qb))
   \<and> (insertFields qb = [] \<and> updateFields qb = [] \<and> whereClauses qb \<noteq> [] \<longrightarrow>
      fst (Build typeName qb) =
        (''DELETE FROM '' @ ToLower typeName
           @ '' WHERE '' @ Join (whereClauses qb) '' AND '',
         whereArgs qb))
   \<and> (insertFields qb = [] \<and> updateFields qb = [] \<and> whereClauses qb = [] \<longrightarrow>
      fst (Build typeName qb) =
        (''SELECT ''
           @ (if selectFields qb = [] then ''*'' else Join (selectFields qb) '', '')
           @ '' FROM '' @ ToLower typeName
           @ (if joins qb = [] then [] else '' '' @ Join (joins qb) '' '')
           @ (if orderBy qb = [] then [] else '' ORDER BY '' @ Join (orderBy qb) '', '')
           @ (if limit qb > 0 then '' LIMIT ?'' else []),
         whereArgs qb @ (if limit qb > 0 then [VInt (limit qb)] else [])))"
  by (simp add: Build_def)

theorem Build_priority_witness:
  "fst (Build ''User'' (WhereEqual ''ID'' (VInt 7) (Insert userRow NewQueryBuilder))) =
     (''INSERT INTO user (ID, Name) VALUES (?, ?)'', [VInt 1, VStr ''ann''])
   \<and> fst (Build ''User'' (WhereEqual ''ID'' (VInt 7) (Update userRow NewQueryBuilder))) =
     (''UPDATE user SET ID = ?, Name = ? WHERE ID = ?'', [VInt 1, VStr ''ann'', VInt 7])
   \<and> fst (Build ''User'' (WhereEqual ''ID'' (VInt 7) (Delete NewQueryBuilder))) =
     (''DELETE FROM user WHERE ID = ?'', [VInt 7])
   \<and> fst (Build ''User'' (Limit 5 (Select [''ID''] NewQueryBuilder))) =
     (''SELECT ID FROM user LIMIT ?'', [VInt 5])"
  using
    Build_priority [of "WhereEqual ''ID'' (VInt 7) (Insert userRow NewQueryBuilder)" "''User''"]
    Build_priority [of "WhereEqual ''ID'' (VInt 7) (Update userRow NewQueryBuilder)" "''User''"]
    Build_priority [of "WhereEqual ''ID'' (VInt 7) (Delete NewQueryBuilder)" "''User''"]
    Build_priority [of "Limit 5 (Select [''ID''] NewQueryBuilder)" "''User''"]
  by (simp add: call_defs NewQueryBuilder_def example_defs ToLower_User)

subsection \<open>Update followed by WhereEqual\<close>




subsection \<open>The limit\<close>

text \<open>
  C5. On the SELECT path with a limit \<open>n > 0\<close>, \<^verbatim>\<open>Build\<close> returns the where-arguments
  followed by \<open>n\<close> and stores that list back into the builder, so a second \<^verbatim>\<open>Build\<close> on
  the same builder returns the same SQL with \<open>n\<close> appended once more: a different
  argument list. \<^verbatim>\<open>Limit\<close> only stores \<open>n\<close>; it leaves the arguments alone and commutes
  with every other clause method, so its place in the chain does not matter.
\<close>

theorem Build_limit_not_idempotent:
  "(insertFields qb = [] \<and> updateFields qb = [] \<and> whereClauses qb = [] \<and> 0 < limit qb \<longrightarrow>
      snd (fst (Build typeName qb)) = whereArgs qb @ [VInt (limit qb)]
      \<and> whereArgs (snd (Build typeName qb)) = whereArgs qb @ [VInt (limit qb)]
      \<and> snd (fst (Build typeName (snd (Build typeName qb)))) =
          whereArgs qb @ [VInt (limit qb), VInt (limit qb)]
      \<and> snd (fst (Build typeName (snd (Build typeName qb)))) \<noteq> snd (fst (Build typeName qb))
      \<and> fst (fst (Build typeName (snd (Build typeName qb)))) = fst (fst (Build typeName qb)))
   \<and> whereArgs (Limit n qb) = whereArgs qb
   \<and> (\<not> is_Limit c \<longrightarrow> apply_call c (Limit n qb) = Limit n (apply_call c qb))"
  by (cases c) (simp_all add: Build_def Let_def call_defs)

theorem Build_limit_not_idempotent_witness:
  "snd (fst (Build ''User'' (Limit 10 (Select [''id''] NewQueryBuilder)))) = [VInt 10]
   \<and> snd (fst (Build ''User''
        (snd (Build ''User'' (Limit 10 (Select [''id''] NewQueryBuilder))))))
       = [VInt 10, VInt 10]
   \<and> apply_call (CSelect [''id'']) (Limit 10 NewQueryBuilder) =
       Limit 10 (apply_call (CSelect [''id'']) NewQueryBuilder)"
  using Build_limit_not_idempotent
    [of "Limit 10 (Select [''id''] NewQueryBuilder)" "''User''" 10 "CSelect [''id'']"]
    Build_limit_not_idempotent
    [of NewQueryBuilder "''User''" 10 "CSelect [''id'']"]
  by (simp add: Limit_def Select_append NewQueryBuilder_def)

text \<open>
  What a chain of calls leaves in \<^verbatim>\<open>qb.limit\<close>, and that the \<^verbatim>\<open>Limit\<close> calls touch
  nothing else.
\<close>

lemma apply_call_limit_update:
  "\<not> is_Limit c \<Longrightarrow> apply_call c (qb\<lparr>limit := l\<rparr>) = (apply_call c qb)\<lparr>limit := l\<rparr>"
  by (cases c) (simp_all add: call_defs)

lemma limit_apply_call:
  "limit (apply_call c qb) = (case c of CLimit n \<Rightarrow> n | _ \<Rightarrow> limit qb)"
  by (cases c) (simp_all add: call_defs)

lemma limit_fold_apply_call:
  "limit (fold apply_call cs qb) = (case last_limit cs of Some n \<Rightarrow> n | None \<Rightarrow> limit qb)"
proof (induction cs arbitrary: qb)
  case Nil
  show ?case by simp
next
  case (Cons c cs)
  show ?case
    by (cases c) (simp_all add: Cons.IH limit_apply_call call_defs split: option.split)
qed

lemma fold_apply_call_without_Limit:
  "(fold apply_call cs qb)\<lparr>limit := l\<rparr> =
     fold apply_call (filter (\<lambda>c. \<not> is_Limit c) cs) (qb\<lparr>limit := l\<rparr>)"
proof (induction cs arbitrary: qb)
  case Nil
  show ?case by simp
next
  case (Cons c cs)
  show ?case
  proof (cases "is_Limit c")
    case True
    then obtain n where "c = CLimit n" by (cases c) simp_all
    then show ?thesis using Cons.IH [of "Limit n qb"] by (simp add: Limit_def)
  next
    case False
    then show ?thesis using Cons.IH [of "apply_call c qb"]
      by (simp add: apply_call_limit_update)
  qed
qed

lemma limit_chain: "limit (chain cs) = (case last_limit cs of Some n \<Rightarrow> n | None \<Rightarrow> 0)"
  by (simp add: chain_def limit_fold_apply_call NewQueryBuilder_def split: option.split)

lemma chain_without_Limit:
  "chain (filter (\<lambda>c. \<not> is_Limit c) cs) = (chain cs)\<lparr>limit := 0\<rparr>"
  using fold_apply_call_without_Limit [where cs = cs and qb = NewQueryBuilder and l = 0]
  by (simp add: chain_def NewQueryBuilder_def)

lemma Build_nonpositive_limit:
  "limit qb \<le> 0 \<Longrightarrow> Build typeName qb = (fst (Build typeName (qb\<lparr>limit := 0\<rparr>)), qb)"
  by (simp add: Build_def Let_def)

lemma Build_sql_positive_limit:
  "0 < n \<Longrightarrow> limit qb \<le> 0 \<Longrightarrow>
   fst (fst (Build typeName (qb\<lparr>limit := n\<rparr>))) =
     fst (fst (Build typeName qb))
       @ (if insertFields qb = [] \<and> updateFields qb = [] \<and> whereClauses qb = []
          then '' LIMIT ?'' else [])"
  by (simp add: Build_def Let_def)

text \<open>
  C10. For every builder whose limit is \<open>\<le> 0\<close>, \<^verbatim>\<open>Build\<close> returns what it returns after
  \<^verbatim>\<open>Limit(0)\<close>, leaves the builder as it was (nothing is appended to its argument list)
  and returns the stored arguments as they are; its SQL has no LIMIT clause: it is what
  a positive limit would render, without the \<^verbatim>\<open> LIMIT ?\<close> that the SELECT path appends
  for it. On a builder whose limit is still 0, \<^verbatim>\<open>Limit(0)\<close> changes nothing. A chain of
  calls that never calls \<^verbatim>\<open>Limit\<close>, or whose last \<^verbatim>\<open>Limit\<close> call has an argument \<open>n \<le> 0\<close>,
  leaves such a limit, and \<^verbatim>\<open>Build\<close> returns the SQL and the arguments of the same chain
  with every \<^verbatim>\<open>Limit\<close> call removed.
\<close>

theorem Build_without_limit:
  "(limit qb \<le> 0 \<longrightarrow>
      fst (Build typeName qb) = fst (Build typeName (Limit 0 qb))
      \<and> snd (Build typeName qb) = qb
      \<and> snd (fst (Build typeName qb)) =
          (if insertFields qb = [] then whereArgs qb else insertValues qb)
      \<and> (\<forall>n>0. fst (fst (Build typeName (Limit n qb))) =
            fst (fst (Build typeName qb))
              @ (if insertFields qb = [] \<and> updateFields qb = [] \<and> whereClauses qb = []
                 then '' LIMIT ?'' else [])))
   \<and> (limit qb = 0 \<longrightarrow> Limit 0 qb = qb)
   \<and> (last_limit cs = None \<or> (\<exists>n. last_limit cs = Some n \<and> n \<le> 0) \<longrightarrow>
        limit (chain cs) \<le> 0
        \<and> fst (Build typeName (chain cs)) =
            fst (Build typeName (chain (filter (\<lambda>c. \<not> is_Limit c) cs))))"
proof -
  have state: "fst (Build typeName qb) = fst (Build typeName (Limit 0 qb))
      \<and> snd (Build typeName qb) = qb
      \<and> snd (fst (Build typeName qb)) =
          (if insertFields qb = [] then whereArgs qb else insertValues qb)
      \<and> (\<forall>n>0. fst (fst (Build typeName (Limit n qb))) =
            fst (fst (Build typeName qb))
              @ (if insertFields qb = [] \<and> updateFields qb = [] \<and> whereClauses qb = []
                 then '' LIMIT ?'' else []))"
    if le: "limit qb \<le> 0"
  proof -
    have a: "fst (Build typeName qb) = fst (Build typeName (Limit 0 qb))"
      using Build_nonpositive_limit [OF le, of typeName] by (simp add: Limit_def)
    have b: "snd (Build typeName qb) = qb"
      using Build_nonpositive_limit [OF le, of typeName] by simp
    have c: "snd (fst (Build typeName qb)) =
        (if insertFields qb = [] then whereArgs qb else insertValues qb)"
      using le by (simp add: Build_def Let_def)
    have d: "\<forall>n>0. fst (fst (Build typeName (Limit n qb))) =
        fst (fst (Build typeName qb))
          @ (if insertFields qb = [] \<and> updateFields qb = [] \<and> whereClauses qb = []
             then '' LIMIT ?'' else [])"
      using Build_sql_positive_limit [OF _ le] by (simp add: Limit_def)
    from a b c d show ?thesis by blast
  qed
  have same: "limit qb = 0 \<longrightarrow> Limit 0 qb = qb"
    by (simp add: Limit_def)
  have calls: "limit (chain cs) \<le> 0
      \<and> fst (Build typeName (chain cs)) =
          fst (Build typeName (chain (filter (\<lambda>c. \<not> is_Limit c) cs)))"
    if "last_limit cs = None \<or> (\<exists>n. last_limit cs = Some n \<and> n \<le> 0)"
  proof -
    from that have le: "limit (chain cs) \<le> 0"
      by (auto simp add: limit_chain)
    have "fst (Build typeName (chain cs)) = fst (Build typeName ((chain cs)\<lparr>limit := 0\<rparr>))"
      using Build_nonpositive_limit [OF le, of typeName] by simp
    with le show ?thesis
      by (simp add: chain_without_Limit)
  qed
  from state same calls show ?thesis by blast
qed

theorem Build_without_limit_witness:
  "last_limit [CSelect [''id''], CLimit 5, COrderByASC ''name'', CLimit 0] = Some 0
   \<and> Build ''User'' (chain [CSelect [''id''], CLimit 5, COrderByASC ''name'', CLimit 0]) =
       ((''SELECT id FROM user ORDER BY name ASC'', []),
        chain [CSelect [''id''], CLimit 5, COrderByASC ''name'', CLimit 0])
   \<and> last_limit [CSelect [''id''], COrderByASC ''name''] = None
   \<and> fst (Build ''User'' (chain [CSelect [''id''], COrderByASC ''name''])) =
       (''SELECT id FROM user ORDER BY name ASC'', [])
   \<and> fst (Build ''User'' (Limit (- 3) NewQueryBuilder)) = (''SELECT * FROM user'', [])
   \<and> Limit 0 NewQueryBuilder = NewQueryBuilder"
  using
    Build_without_limit
      [of "chain [CSelect [''id''], CLimit 5, COrderByASC ''name'', CLimit 0]" "''User''"
        "[CSelect [''id''], CLimit 5, COrderByASC ''name'', CLimit 0]"]
    Build_without_limit
      [of "Limit (- 3) NewQueryBuilder" "''User''" "[CSelect [''id''], COrderByASC ''name'']"]
    Build_without_limit [of NewQueryBuilder "''User''" "[]"]
  by (simp add: chain_def call_defs NewQueryBuilder_def Build_def ToLower_User)

subsection \<open>The field registry\<close>

lemma fold_step_other:
  "n \<notin> fname ` set fs \<Longrightarrow> fold registerModel_step fs fm n = fm n"
  by (induction fs arbitrary: fm) (simp_all add: registerModel_step_def)

lemma fold_step_declared:
  "distinct (map fname fs) \<Longrightarrow> f \<in> set fs \<Longrightarrow>
   fold registerModel_step fs fm (fname f) = Some (column_of f)"
proof (induction fs arbitrary: fm)
  case Nil
  then show ?case by simp
next
  case (Cons g gs)
  show ?case
  proof (cases "f \<in> set gs")
    case True
    with Cons show ?thesis by simp
  next
    case False
    with Cons.prems have fg: "f = g" and fresh: "fname g \<notin> fname ` set gs" by auto
    have "fold registerModel_step gs (registerModel_step g fm) (fname g) =
        registerModel_step g fm (fname g)"
      using fresh by (rule fold_step_other)
    also have "\<dots> = Some (column_of g)"
      by (simp add: registerModel_step_def)
    finally show ?thesis
      by (simp add: fg)
  qed
qed


text \<open>The stored field map is a function of the struct type, not of the field values.\<close>

lemma fold_step_decls:
  "fold registerModel_step fs fm =
   fold (\<lambda>(n, t) m. m(n \<mapsto> (case map_of t ''db'' of Some tag \<Rightarrow> tag | None \<Rightarrow> n)))
     (map (\<lambda>f. (fname f, ftag f)) fs) fm"
  by (induction fs arbitrary: fm)
    (simp_all add: registerModel_step_def column_of_def TagLookup_def)

lemma fieldMap_decls:
  "decls m' = decls m \<Longrightarrow>
   fold registerModel_step (sfields m') fm = fold registerModel_step (sfields m) fm"
  by (simp add: fold_step_decls decls_def)


lemma RegisterModels_same_type:
  "c (tname m) = Some (fold registerModel_step (sfields m) Map.empty) \<Longrightarrow>
   \<forall>m'\<in>set post. tname m' = tname m \<longrightarrow> decls m' = decls m \<Longrightarrow>
   RegisterModels post c (tname m) = Some (fold registerModel_step (sfields m) Map.empty)"
  unfolding RegisterModels_def
proof (induction post arbitrary: c)
  case Nil
  then show ?case by simp
next
  case (Cons p post)
  have "registerModel p c (tname m) = Some (fold registerModel_step (sfields m) Map.empty)"
  proof (cases "tname p = tname m")
    case True
    with Cons.prems have "decls p = decls m" by simp
    then have "fold registerModel_step (sfields p) Map.empty =
        fold registerModel_step (sfields m) Map.empty"
      by (rule fieldMap_decls)
    with True show ?thesis by (simp add: registerModel_def)
  next
    case False
    with Cons.prems show ?thesis by (simp add: registerModel_def)
  qed
  moreover have "\<forall>m'\<in>set post. tname m' = tname m \<longrightarrow> decls m' = decls m"
    using Cons.prems by simp
  ultimately show ?case using Cons.IH by simp
qed

lemma RegisterModels_last:
  assumes "\<forall>m'\<in>set post. tname m' = tname m \<longrightarrow> decls m' = decls m"
  shows "RegisterModels (pre @ m # post) c (tname m) =
    Some (fold registerModel_step (sfields m) Map.empty)"
proof -
  have "RegisterModels (pre @ m # post) c =
      RegisterModels post (registerModel m (RegisterModels pre c))"
    by (simp add: RegisterModels_def)
  moreover have "registerModel m (RegisterModels pre c) (tname m) =
      Some (fold registerModel_step (sfields m) Map.empty)"
    by (simp add: registerModel_def)
  ultimately show ?thesis
    using RegisterModels_same_type [OF _ assms] by simp
qed

text \<open>
  C7, as the code has it. Let \<open>m\<close> be a model passed to \<^verbatim>\<open>RegisterModels\<close> such that
  every model registered after it under the same bare type name is of the same struct
  type; field names within a struct are distinct, as Go requires of exported fields.
  Then for every declared field \<open>f\<close> of \<open>m\<close>, \<^verbatim>\<open>GetField\<close> returns the \<^verbatim>\<open>db\<close> tag of \<open>f\<close> if
  it has one and the field name otherwise, and \<^verbatim>\<open>GetFields\<close> returns a map holding that
  entry. The lookup reads the stored map under the type name: whatever value of that
  type name is passed, tags and values included, the answer is the same; and since
  \<^verbatim>\<open>GetField\<close> and \<^verbatim>\<open>GetFields\<close> only load from the cache, a repeated lookup is the same
  function of the same cache.
\<close>

theorem registered_column:
  "ms = pre @ m # post
   \<and> (\<forall>m'\<in>set post. tname m' = tname m \<longrightarrow> decls m' = decls m)
   \<and> distinct (map fname (sfields m)) \<and> f \<in> set (sfields m) \<longrightarrow>
     GetField (RegisterModels ms c) m (fname f) = Inr (column_of f)
     \<and> column_of f = (case map_of (ftag f) ''db'' of Some tag \<Rightarrow> tag | None \<Rightarrow> fname f)
     \<and> (\<exists>fm. GetFields (RegisterModels ms c) (tname m) = Inr fm
           \<and> fm (fname f) = Some (column_of f))
     \<and> (\<forall>v. tname v = tname m \<longrightarrow>
           GetField (RegisterModels ms c) v (fname f) = Inr (column_of f))"
proof (intro impI, elim conjE)
  assume ms: "ms = pre @ m # post"
    and post: "\<forall>m'\<in>set post. tname m' = tname m \<longrightarrow> decls m' = decls m"
    and d: "distinct (map fname (sfields m))" and f: "f \<in> set (sfields m)"
  have e: "RegisterModels ms c (tname m) =
      Some (fold registerModel_step (sfields m) Map.empty)"
    unfolding ms using post by (rule RegisterModels_last)
  have col: "fold registerModel_step (sfields m) Map.empty (fname f) = Some (column_of f)"
    using d f by (rule fold_step_declared)
  show "GetField (RegisterModels ms c) m (fname f) = Inr (column_of f)
     \<and> column_of f = (case map_of (ftag f) ''db'' of Some tag \<Rightarrow> tag | None \<Rightarrow> fname f)
     \<and> (\<exists>fm. GetFields (RegisterModels ms c) (tname m) = Inr fm
           \<and> fm (fname f) = Some (column_of f))
     \<and> (\<forall>v. tname v = tname m \<longrightarrow>
           GetField (RegisterModels ms c) v (fname f) = Inr (column_of f))"
    by (simp add: GetField_def GetFields_def e col column_of_def TagLookup_def)
qed

theorem registered_column_witness:
  "GetField (RegisterModels [otherUser, userRow, userRow] Map.empty) userRow ''ID'' =
     Inr ''user_id''
   \<and> GetField (RegisterModels [otherUser, userRow, userRow] Map.empty) userRow ''Name'' =
     Inr ''Name''
   \<and> idField \<in> set (sfields userRow) \<and> nameField \<in> set (sfields userRow)
   \<and> distinct (map fname (sfields userRow))"
  using
    registered_column [of "[otherUser, userRow, userRow]" "[otherUser]" userRow "[userRow]"
      idField Map.empty]
    registered_column [of "[otherUser, userRow, userRow]" "[otherUser]" userRow "[userRow]"
      nameField Map.empty]
  by (simp add: example_defs column_of_def TagLookup_def)

text \<open>
  The claim as stated, for every registered model, fails when a second struct type with
  the same bare name is registered later: \<^verbatim>\<open>registerModel\<close> stores under \<^verbatim>\<open>t.Name()\<close> and
  replaces the first type's map, and the lookup of the first type's field \<^verbatim>\<open>ID\<close>, whose
  \<^verbatim>\<open>db\<close> tag is \<^verbatim>\<open>user_id\<close>, panics.
\<close>

theorem registered_column_counterexample:
  "GetField (RegisterModels [userRow, otherUser] Map.empty) userRow ''ID'' =
     Inl (Panic ''Field not found: ID'')
   \<and> userRow \<in> set [userRow, otherUser]
   \<and> idField \<in> set (sfields userRow) \<and> fname idField = ''ID''
   \<and> TagLookup idField ''db'' = Some ''user_id''"
  by (simp add: GetField_def RegisterModels_def registerModel_def registerModel_step_def
      TagLookup_def example_defs)



end
